theory Spec2Isabelle
  imports Main "HOL-Library.Word"
begin

unbundle bit_operations_syntax

section \<open>Machine types and I/O registers\<close>

text \<open>
  The firmware runs on an 8-bit AVR: \<open>byte_t\<close> is \<open>unsigned char\<close> (8 bits),
  \<open>Clock::cycle_t\<close> is \<open>unsigned short\<close> (16 bits), \<open>short\<close> and \<open>int\<close> are 16 bits and
  \<open>unsigned long\<close> is 32 bits. Arithmetic on words wraps around, as the unsigned C
  arithmetic does; the signed position counter is a 16-bit word read with \<open>sint\<close>.
\<close>

type_synonym byte_t = "8 word"
type_synonym cycle_t = "16 word"
type_synonym short = "16 word"

text \<open>The port bits of the enum at the top of the source that the screen logic uses.\<close>

definition IN_ENDSWITCH_B :: byte_t where
  "IN_ENDSWITCH_B = push_bit 1 1"

definition OUT_MOT_DN_A :: byte_t where
  "OUT_MOT_DN_A = push_bit 6 1"

definition OUT_MOT_UP_B :: byte_t where
  "OUT_MOT_UP_B = push_bit 0 1"

text \<open>
  The input registers a call reads: the timer counter \<open>TCNT1\<close> behind \<open>Clock::now()\<close>
  and the pin register \<open>PINB\<close> behind \<open>endswitch_in()\<close>. Every operation takes the
  values it reads from the registers; they may differ from one call to the next. No
  method reads a register twice, except \<open>go_home\<close>, which takes two readings. Each
  method runs as one step: the interrupt handler's rotation tick is an operation of
  its own between two calls.
\<close>

record avr_in =
  TCNT1 :: cycle_t
  PINB :: byte_t

definition endswitch_in :: "avr_in \<Rightarrow> bool" where
  "endswitch_in io = ((PINB io AND IN_ENDSWITCH_B) = 0)"

section \<open>Clock\<close>

definition AVR_MHZ :: "32 word" where
  "AVR_MHZ = 8"

definition F_CPU :: "32 word" where
  "F_CPU = AVR_MHZ * 1000000"

definition Clock_now :: "avr_in \<Rightarrow> cycle_t" where
  "Clock_now io = TCNT1 io"

text \<open>
  \<open>ms * (F_CPU / 1024) / 1000\<close>: the operand \<open>ms\<close> is converted to \<open>unsigned long\<close>,
  the product and both divisions are 32-bit unsigned, and the result is truncated to
  \<open>cycle_t\<close> on return.
\<close>

definition ms_to_cycles :: "16 word \<Rightarrow> cycle_t" where
  "ms_to_cycles ms = ucast ((ucast ms :: 32 word) * (F_CPU div 1024) div 1000)"

section \<open>Screen\<close>

datatype Direction = DIR_NEUTRAL | DIR_UP | DIR_DOWN

datatype ErrorType = ERR_NONE | ERR_SWITCH | ERR_ROTATION

definition SCREEN_UP_STOP_THRESHOLD :: short where
  "SCREEN_UP_STOP_THRESHOLD = - 4"

definition SCREEN_DN_STOP_THRESHOLD :: short where
  "SCREEN_DN_STOP_THRESHOLD = 258"

text \<open>
  The fields of class \<open>Screen\<close> (the source's \<open>error_\<close>, \<open>motor_dir_\<close>, \<open>pos_\<close> and
  \<open>last_update_time_\<close>, written without the trailing underscore), together with the two
  output port registers its methods write (\<open>PORTA\<close> carries the motor-down line,
  \<open>PORTB\<close> the motor-up line).
\<close>

record Screen =
  error :: ErrorType
  motor_dir :: Direction
  pos :: short
  last_update_time :: cycle_t
  PORTA :: byte_t
  PORTB :: byte_t

text \<open>
  The constructor initialises \<open>error\<close>, \<open>motor_dir\<close> and \<open>pos\<close>; it leaves
  \<open>last_update_time\<close> uninitialised, so that value and the port registers are
  arguments here.
\<close>

definition Screen_new :: "cycle_t \<Rightarrow> byte_t \<Rightarrow> byte_t \<Rightarrow> Screen" where
  "Screen_new t pa pb =
     \<lparr>error = ERR_NONE, motor_dir = DIR_NEUTRAL, pos = 0,
      last_update_time = t, PORTA = pa, PORTB = pb\<rparr>"

text \<open>A non-zero \<open>error\<close> counts as true; the position is compared as a signed short.\<close>

definition up_stop_condition :: "avr_in \<Rightarrow> Screen \<Rightarrow> bool" where
  "up_stop_condition io s =
     (error s \<noteq> ERR_NONE \<or> pos s \<le>s SCREEN_UP_STOP_THRESHOLD \<or> endswitch_in io)"

definition down_stop_condition :: "Screen \<Rightarrow> bool" where
  "down_stop_condition s =
     (error s \<noteq> ERR_NONE \<or> SCREEN_DN_STOP_THRESHOLD \<le>s pos s)"

definition set_dir :: "avr_in \<Rightarrow> Direction \<Rightarrow> Screen \<Rightarrow> Screen" where
  "set_dir io d s =
     (if d = motor_dir s then s
      else case d of
        DIR_UP \<Rightarrow>
          if \<not> up_stop_condition io s
          then s\<lparr>PORTA := PORTA s AND NOT OUT_MOT_DN_A,
                 PORTB := PORTB s OR OUT_MOT_UP_B,
                 motor_dir := d,
                 last_update_time := Clock_now io\<rparr>
          else s
      | DIR_DOWN \<Rightarrow>
          if \<not> down_stop_condition s
          then s\<lparr>PORTA := PORTA s OR OUT_MOT_DN_A,
                 PORTB := PORTB s AND NOT OUT_MOT_UP_B,
                 motor_dir := d,
                 last_update_time := Clock_now io\<rparr>
          else s
      | DIR_NEUTRAL \<Rightarrow>
          s\<lparr>PORTA := PORTA s AND NOT OUT_MOT_DN_A,
            PORTB := PORTB s AND NOT OUT_MOT_UP_B,
            motor_dir := d\<rparr>)"

text \<open>\<open>go_home\<close> tests the endswitch itself (reading \<open>io\<close>) and then calls \<open>set_dir\<close>,
  which reads the registers again (reading \<open>io'\<close>).\<close>

definition go_home :: "avr_in \<Rightarrow> avr_in \<Rightarrow> Screen \<Rightarrow> Screen" where
  "go_home io io' s =
     (if error s = ERR_SWITCH then s
      else let s1 = s\<lparr>error := ERR_NONE\<rparr> in
        if endswitch_in io then s1
        else set_dir io' DIR_UP (s1\<lparr>pos := SCREEN_DN_STOP_THRESHOLD\<rparr>))"

text \<open>\<open>--pos\<close> and \<open>++pos\<close> on the 16-bit counter wrap around.\<close>

definition event_rotation_tick :: "avr_in \<Rightarrow> Screen \<Rightarrow> Screen" where
  "event_rotation_tick io s =
     (let s1 = s\<lparr>last_update_time := Clock_now io\<rparr> in
      case motor_dir s1 of
        DIR_UP \<Rightarrow> s1\<lparr>pos := pos s1 - 1\<rparr>
      | DIR_DOWN \<Rightarrow> s1\<lparr>pos := pos s1 + 1\<rparr>
      | DIR_NEUTRAL \<Rightarrow> s1)"

definition event_endswitch_triggered :: "Screen \<Rightarrow> Screen" where
  "event_endswitch_triggered s =
     (if motor_dir s \<noteq> DIR_DOWN then s\<lparr>pos := 0\<rparr> else s)"

definition enter_error_state :: "avr_in \<Rightarrow> ErrorType \<Rightarrow> Screen \<Rightarrow> Screen" where
  "enter_error_state io type s = (set_dir io DIR_NEUTRAL s)\<lparr>error := type\<rparr>"

text \<open>The three \<open>if\<close> statements of the method run in sequence, each on the state the
  previous one left.\<close>

definition check_stop_conditions :: "avr_in \<Rightarrow> Screen \<Rightarrow> Screen" where
  "check_stop_conditions io s =
     (let s1 = (if motor_dir s \<noteq> DIR_NEUTRAL
                   \<and> ms_to_cycles 1000 < Clock_now io - last_update_time s
                then enter_error_state io ERR_ROTATION s else s);
          s2 = (if motor_dir s1 = DIR_UP \<and> pos s1 \<le>s SCREEN_UP_STOP_THRESHOLD
                then enter_error_state io ERR_SWITCH s1 else s1)
      in if (motor_dir s2 = DIR_UP \<and> up_stop_condition io s2)
            \<or> (motor_dir s2 = DIR_DOWN \<and> down_stop_condition s2)
         then set_dir io DIR_NEUTRAL s2 else s2)"

text \<open>The public operations of the screen, each with the register values it runs under,
  and the execution of a sequence of them.\<close>

datatype action =
    Set_dir avr_in Direction
  | Go_home avr_in avr_in
  | Rotation_tick avr_in
  | Endswitch_triggered
  | Check_stop avr_in

fun exec :: "action \<Rightarrow> Screen \<Rightarrow> Screen" where
  "exec (Set_dir io d) s = set_dir io d s"
| "exec (Go_home io io') s = go_home io io' s"
| "exec (Rotation_tick io) s = event_rotation_tick io s"
| "exec Endswitch_triggered s = event_endswitch_triggered s"
| "exec (Check_stop io) s = check_stop_conditions io s"

fun run :: "action list \<Rightarrow> Screen \<Rightarrow> Screen" where
  "run [] s = s"
| "run (a # as) s = run as (exec a s)"

text \<open>The invariant of the data model: an error state forces the motor to neutral.\<close>

definition error_neutral :: "Screen \<Rightarrow> bool" where
  "error_neutral s = (error s \<noteq> ERR_NONE \<longrightarrow> motor_dir s = DIR_NEUTRAL)"

section \<open>Infrared decoder\<close>

datatype Button =
  BUTTON_ON | BUTTON_OFF | BUTTON_UP | BUTTON_DOWN | BUTTON_SET | BUTTON_UNKNOWN

text \<open>The buffer handed to \<open>DecodeInfrared\<close> is an array of four bytes,
  \<open>buffer[0]\<close> to \<open>buffer[3]\<close>.\<close>

type_synonym frame = "byte_t \<times> byte_t \<times> byte_t \<times> byte_t"

fun DecodeInfrared :: "frame \<Rightarrow> Button" where
  "DecodeInfrared (b0, b1, b2, b3) =
     (if b0 \<noteq> 0xE0 \<and> b1 \<noteq> 0xD5 then BUTTON_UNKNOWN
      else let u = b2; l = b3 in
        if u = 0x04 \<and> l = 0xFB then BUTTON_ON
        else if u = 0x44 \<and> l = 0xBB then BUTTON_OFF
        else if u = 0x06 \<and> l = 0xF9 then BUTTON_UP
        else if u = 0x26 \<and> l = 0xD9 then BUTTON_DOWN
        else if u = 0x50 \<and> l = 0xAF then BUTTON_SET
        else BUTTON_UNKNOWN)"

section \<open>Monoflop\<close>

text \<open>The fields \<open>duration_\<close>, \<open>trigger_time_\<close> and \<open>active_\<close> of class \<open>Monoflop\<close>.\<close>

record Monoflop =
  duration :: cycle_t
  trigger_time :: cycle_t
  active :: bool

definition Monoflop_new :: "cycle_t \<Rightarrow> Monoflop" where
  "Monoflop_new cycles = \<lparr>duration = cycles, trigger_time = 0, active = False\<rparr>"

definition trigger :: "avr_in \<Rightarrow> Monoflop \<Rightarrow> Monoflop" where
  "trigger io m = m\<lparr>trigger_time := Clock_now io, active := True\<rparr>"

definition is_active :: "Monoflop \<Rightarrow> bool" where
  "is_active m = active m"

definition regular_check :: "avr_in \<Rightarrow> Monoflop \<Rightarrow> Monoflop" where
  "regular_check io m =
     (if active m \<and> duration m \<le> Clock_now io - trigger_time m
      then m\<lparr>active := False\<rparr> else m)"

text \<open>A run of \<open>regular_check\<close> calls, one for each register snapshot of the list.\<close>

definition regular_checks :: "avr_in list \<Rightarrow> Monoflop \<Rightarrow> Monoflop" where
  "regular_checks ios m = foldl (\<lambda>m io. regular_check io m) m ios"

section \<open>Infrared decoder: the command table\<close>

text \<open>
  C9. \<open>DecodeInfrared\<close> maps E0 D5 04 FB to ON, E0 D5 44 BB to OFF, E0 D5 06 F9 to UP,
  E0 D5 26 D9 to DOWN, E0 D5 50 AF to SET, and 00 00 00 00 to UNKNOWN.
\<close>

theorem DecodeInfrared_table:
  "DecodeInfrared (0xE0, 0xD5, 0x04, 0xFB) = BUTTON_ON
   \<and> DecodeInfrared (0xE0, 0xD5, 0x44, 0xBB) = BUTTON_OFF
   \<and> DecodeInfrared (0xE0, 0xD5, 0x06, 0xF9) = BUTTON_UP
   \<and> DecodeInfrared (0xE0, 0xD5, 0x26, 0xD9) = BUTTON_DOWN
   \<and> DecodeInfrared (0xE0, 0xD5, 0x50, 0xAF) = BUTTON_SET
   \<and> DecodeInfrared (0x00, 0x00, 0x00, 0x00) = BUTTON_UNKNOWN"
  by simp

text \<open>
  C1. A frame whose first preamble byte is wrong while the second is right is not
  rejected: the preamble test returns UNKNOWN only when both bytes differ, so
  00 D5 04 FB decodes to ON (and E0 00 44 BB to OFF).
\<close>

theorem DecodeInfrared_wrong_preamble_accepted:
  "DecodeInfrared (0x00, 0xD5, 0x04, 0xFB) = BUTTON_ON
   \<and> DecodeInfrared (0xE0, 0x00, 0x44, 0xBB) = BUTTON_OFF"
  by simp

section \<open>Clock and direction changes: basic facts\<close>

lemma ms_to_cycles_1000: "ms_to_cycles 1000 = 7812"
  by (simp add: ms_to_cycles_def F_CPU_def AVR_MHZ_def)

lemma ms_to_cycles_4000: "ms_to_cycles 4000 = 31248"
  by (simp add: ms_to_cycles_def F_CPU_def AVR_MHZ_def)

lemma set_dir_neutral_dir: "motor_dir (set_dir io DIR_NEUTRAL s) = DIR_NEUTRAL"
  by (simp add: set_dir_def)

lemma set_dir_error: "error (set_dir io d s) = error s"
  by (simp add: set_dir_def split: Direction.splits)

lemma enter_error_state_dir: "motor_dir (enter_error_state io type s) = DIR_NEUTRAL"
  by (simp add: enter_error_state_def set_dir_neutral_dir)

lemma enter_error_state_error: "error (enter_error_state io type s) = type"
  by (simp add: enter_error_state_def)

lemma check_stop_neutral: "motor_dir s = DIR_NEUTRAL \<Longrightarrow> check_stop_conditions io s = s"
  by (simp add: check_stop_conditions_def Let_def)

text \<open>Once the stall test fires, the motor is neutral and the two later tests of
  \<open>check_stop_conditions\<close>, which both ask for a moving motor, are skipped.\<close>

lemma check_stop_stalled:
  assumes "motor_dir s \<noteq> DIR_NEUTRAL"
    and "ms_to_cycles 1000 < Clock_now io - last_update_time s"
  shows "check_stop_conditions io s = enter_error_state io ERR_ROTATION s"
  using assms by (simp add: check_stop_conditions_def Let_def enter_error_state_dir)

section \<open>Rotation fault\<close>

text \<open>
  C2 (as amended). For every state with Direction other than NEUTRAL, if
  \<open>check_stop_conditions\<close> is called when strictly more than \<open>ms_to_cycles 1000\<close> (7812)
  ticks have passed since the last update, the difference taken modulo \<open>2^16\<close>, then
  afterwards the error state is ROTATION_FAULT and the direction is NEUTRAL.
\<close>

theorem check_stop_conditions_rotation_fault:
  "motor_dir s \<noteq> DIR_NEUTRAL \<Longrightarrow>
   ms_to_cycles 1000 < Clock_now io - last_update_time s \<Longrightarrow>
   error (check_stop_conditions io s) = ERR_ROTATION
   \<and> motor_dir (check_stop_conditions io s) = DIR_NEUTRAL"
  by (simp add: check_stop_stalled enter_error_state_dir enter_error_state_error)

text \<open>A screen moving down whose last tick came at 65000, checked at 7277 after the
  counter rolled over: 7813 ticks have passed.\<close>

theorem check_stop_conditions_rotation_fault_witness:
  "motor_dir \<lparr>error = ERR_NONE, motor_dir = DIR_DOWN, pos = 100, last_update_time = 65000,
       PORTA = 0x40, PORTB = 0x0A\<rparr> \<noteq> DIR_NEUTRAL
   \<and> ms_to_cycles 1000 < Clock_now \<lparr>TCNT1 = 7277, PINB = 0x0A\<rparr> - 65000
   \<and> error (check_stop_conditions \<lparr>TCNT1 = 7277, PINB = 0x0A\<rparr>
       \<lparr>error = ERR_NONE, motor_dir = DIR_DOWN, pos = 100, last_update_time = 65000,
        PORTA = 0x40, PORTB = 0x0A\<rparr>) = ERR_ROTATION
   \<and> motor_dir (check_stop_conditions \<lparr>TCNT1 = 7277, PINB = 0x0A\<rparr>
       \<lparr>error = ERR_NONE, motor_dir = DIR_DOWN, pos = 100, last_update_time = 65000,
        PORTA = 0x40, PORTB = 0x0A\<rparr>) = DIR_NEUTRAL"
  using check_stop_conditions_rotation_fault
    [of "\<lparr>error = ERR_NONE, motor_dir = DIR_DOWN, pos = 100, last_update_time = 65000,
         PORTA = 0x40, PORTB = 0x0A\<rparr>" "\<lparr>TCNT1 = 7277, PINB = 0x0A\<rparr>"]
  by (simp add: ms_to_cycles_1000 Clock_now_def)

text \<open>
  With exactly \<open>ms_to_cycles 1000\<close> ticks elapsed the comparison \<open>>\<close> of the source is
  false: a screen moving down inside its range keeps moving and no error is raised.
\<close>

theorem check_stop_conditions_at_1000ms_no_fault:
  "motor_dir \<lparr>error = ERR_NONE, motor_dir = DIR_DOWN, pos = 100, last_update_time = 0,
       PORTA = 0x40, PORTB = 0x0A\<rparr> \<noteq> DIR_NEUTRAL
   \<and> ms_to_cycles 1000 \<le> Clock_now \<lparr>TCNT1 = 7812, PINB = 0x0A\<rparr> - 0
   \<and> error (check_stop_conditions \<lparr>TCNT1 = 7812, PINB = 0x0A\<rparr>
       \<lparr>error = ERR_NONE, motor_dir = DIR_DOWN, pos = 100, last_update_time = 0,
        PORTA = 0x40, PORTB = 0x0A\<rparr>) = ERR_NONE
   \<and> motor_dir (check_stop_conditions \<lparr>TCNT1 = 7812, PINB = 0x0A\<rparr>
       \<lparr>error = ERR_NONE, motor_dir = DIR_DOWN, pos = 100, last_update_time = 0,
        PORTA = 0x40, PORTB = 0x0A\<rparr>) = DIR_DOWN"
  by (simp add: ms_to_cycles_1000 Clock_now_def check_stop_conditions_def Let_def
      down_stop_condition_def SCREEN_DN_STOP_THRESHOLD_def word_sle_eq)

section \<open>Both faults at once\<close>

text \<open>
  C10 (as amended). When \<open>check_stop_conditions\<close> runs with Direction UP and the
  position at or beyond the up-stop threshold, the resulting error state is
  ROTATION_FAULT if the stall test fires as well (more than \<open>ms_to_cycles 1000\<close> ticks
  without a tick), and SWITCH_FAULT only otherwise: the stall test runs first and
  leaves the motor neutral, so the switch-overrun test, which asks for Direction UP,
  no longer fires.
\<close>

theorem check_stop_conditions_fault_priority:
  "motor_dir s = DIR_UP \<Longrightarrow> pos s \<le>s SCREEN_UP_STOP_THRESHOLD \<Longrightarrow>
   error (check_stop_conditions io s) =
     (if ms_to_cycles 1000 < Clock_now io - last_update_time s
      then ERR_ROTATION else ERR_SWITCH)"
  by (simp add: check_stop_conditions_def Let_def enter_error_state_dir enter_error_state_error)

theorem check_stop_conditions_fault_priority_witness:
  "motor_dir \<lparr>error = ERR_NONE, motor_dir = DIR_UP, pos = - 5, last_update_time = 100,
       PORTA = 0, PORTB = 0x0B\<rparr> = DIR_UP
   \<and> (- 5 :: short) \<le>s SCREEN_UP_STOP_THRESHOLD
   \<and> ms_to_cycles 1000 < Clock_now \<lparr>TCNT1 = 9000, PINB = 0x0A\<rparr> - 100
   \<and> error (check_stop_conditions \<lparr>TCNT1 = 9000, PINB = 0x0A\<rparr>
       \<lparr>error = ERR_NONE, motor_dir = DIR_UP, pos = - 5, last_update_time = 100,
        PORTA = 0, PORTB = 0x0B\<rparr>) = ERR_ROTATION
   \<and> \<not> ms_to_cycles 1000 < Clock_now \<lparr>TCNT1 = 200, PINB = 0x0A\<rparr> - 100
   \<and> error (check_stop_conditions \<lparr>TCNT1 = 200, PINB = 0x0A\<rparr>
       \<lparr>error = ERR_NONE, motor_dir = DIR_UP, pos = - 5, last_update_time = 100,
        PORTA = 0, PORTB = 0x0B\<rparr>) = ERR_SWITCH"
  using check_stop_conditions_fault_priority
      [of "\<lparr>error = ERR_NONE, motor_dir = DIR_UP, pos = - 5, last_update_time = 100,
           PORTA = 0, PORTB = 0x0B\<rparr>" "\<lparr>TCNT1 = 9000, PINB = 0x0A\<rparr>"]
    check_stop_conditions_fault_priority
      [of "\<lparr>error = ERR_NONE, motor_dir = DIR_UP, pos = - 5, last_update_time = 100,
           PORTA = 0, PORTB = 0x0B\<rparr>" "\<lparr>TCNT1 = 200, PINB = 0x0A\<rparr>"]
  by (simp add: ms_to_cycles_1000 Clock_now_def SCREEN_UP_STOP_THRESHOLD_def)

text \<open>
  Direction UP, position \<open>-4\<close>, 8000 ticks since the last update: both fault
  conditions hold, and the call does not end in SWITCH_FAULT.
\<close>

theorem check_stop_conditions_both_faults_not_switch:
  "motor_dir \<lparr>error = ERR_NONE, motor_dir = DIR_UP, pos = - 4, last_update_time = 0,
       PORTA = 0, PORTB = 0x0B\<rparr> = DIR_UP
   \<and> ms_to_cycles 1000 < Clock_now \<lparr>TCNT1 = 8000, PINB = 0x0A\<rparr> - 0
   \<and> (- 4 :: short) \<le>s SCREEN_UP_STOP_THRESHOLD
   \<and> error (check_stop_conditions \<lparr>TCNT1 = 8000, PINB = 0x0A\<rparr>
       \<lparr>error = ERR_NONE, motor_dir = DIR_UP, pos = - 4, last_update_time = 0,
        PORTA = 0, PORTB = 0x0B\<rparr>) \<noteq> ERR_SWITCH"
  by (simp add: ms_to_cycles_1000 Clock_now_def check_stop_conditions_def Let_def
      enter_error_state_def set_dir_def SCREEN_UP_STOP_THRESHOLD_def)

section \<open>Refused and ignored commands\<close>

text \<open>
  C6. In every state with error state SWITCH_FAULT, \<open>go_home\<close> changes nothing:
  position, direction, error state, last update time and both motor port registers
  are the same after the call as before.
\<close>

theorem go_home_switch_fault_noop:
  "error s = ERR_SWITCH \<Longrightarrow> go_home io io' s = s"
  by (simp add: go_home_def)

theorem go_home_switch_fault_noop_witness:
  "error \<lparr>error = ERR_SWITCH, motor_dir = DIR_NEUTRAL, pos = - 4, last_update_time = 17,
       PORTA = 0, PORTB = 0x0A\<rparr> = ERR_SWITCH
   \<and> go_home \<lparr>TCNT1 = 500, PINB = 0x0A\<rparr> \<lparr>TCNT1 = 501, PINB = 0x0A\<rparr>
       \<lparr>error = ERR_SWITCH, motor_dir = DIR_NEUTRAL, pos = - 4, last_update_time = 17,
        PORTA = 0, PORTB = 0x0A\<rparr>
     = \<lparr>error = ERR_SWITCH, motor_dir = DIR_NEUTRAL, pos = - 4, last_update_time = 17,
        PORTA = 0, PORTB = 0x0A\<rparr>"
  using go_home_switch_fault_noop
    [of "\<lparr>error = ERR_SWITCH, motor_dir = DIR_NEUTRAL, pos = - 4, last_update_time = 17,
         PORTA = 0, PORTB = 0x0A\<rparr>" "\<lparr>TCNT1 = 500, PINB = 0x0A\<rparr>"
        "\<lparr>TCNT1 = 501, PINB = 0x0A\<rparr>"]
  by simp

text \<open>
  C7. In every state where the up-stop condition holds (an error is set, or the
  position is at or below the up-stop threshold, or the endswitch is asserted),
  \<open>set_dir DIR_UP\<close> leaves the state, and so the direction, unchanged; and
  \<open>set_dir DIR_DOWN\<close> leaves it unchanged when an error is set or the position is at
  or above the down-stop threshold.
\<close>

theorem set_dir_refused_at_stop:
  "(error s \<noteq> ERR_NONE \<or> pos s \<le>s SCREEN_UP_STOP_THRESHOLD \<or> endswitch_in io
      \<longrightarrow> set_dir io DIR_UP s = s \<and> motor_dir (set_dir io DIR_UP s) = motor_dir s)
   \<and> (error s \<noteq> ERR_NONE \<or> SCREEN_DN_STOP_THRESHOLD \<le>s pos s
      \<longrightarrow> set_dir io DIR_DOWN s = s \<and> motor_dir (set_dir io DIR_DOWN s) = motor_dir s)"
  by (simp add: set_dir_def up_stop_condition_def down_stop_condition_def)

text \<open>A neutral screen with the endswitch asserted (bit 1 of \<open>PINB\<close> low) asked to go up,
  and a screen moving up at position 258 asked to go down.\<close>

theorem set_dir_refused_at_stop_witness:
  "endswitch_in \<lparr>TCNT1 = 500, PINB = 0x08\<rparr>
   \<and> set_dir \<lparr>TCNT1 = 500, PINB = 0x08\<rparr> DIR_UP
       \<lparr>error = ERR_NONE, motor_dir = DIR_NEUTRAL, pos = 0, last_update_time = 17,
        PORTA = 0, PORTB = 0x0A\<rparr>
     = \<lparr>error = ERR_NONE, motor_dir = DIR_NEUTRAL, pos = 0, last_update_time = 17,
        PORTA = 0, PORTB = 0x0A\<rparr>
   \<and> SCREEN_DN_STOP_THRESHOLD \<le>s (258 :: short)
   \<and> set_dir \<lparr>TCNT1 = 500, PINB = 0x0A\<rparr> DIR_DOWN
       \<lparr>error = ERR_NONE, motor_dir = DIR_UP, pos = 258, last_update_time = 17,
        PORTA = 0, PORTB = 0x0B\<rparr>
     = \<lparr>error = ERR_NONE, motor_dir = DIR_UP, pos = 258, last_update_time = 17,
        PORTA = 0, PORTB = 0x0B\<rparr>"
  using set_dir_refused_at_stop
      [of "\<lparr>error = ERR_NONE, motor_dir = DIR_NEUTRAL, pos = 0, last_update_time = 17,
           PORTA = 0, PORTB = 0x0A\<rparr>" "\<lparr>TCNT1 = 500, PINB = 0x08\<rparr>"]
    set_dir_refused_at_stop
      [of "\<lparr>error = ERR_NONE, motor_dir = DIR_UP, pos = 258, last_update_time = 17,
           PORTA = 0, PORTB = 0x0B\<rparr>" "\<lparr>TCNT1 = 500, PINB = 0x0A\<rparr>"]
  by (simp add: endswitch_in_def IN_ENDSWITCH_B_def SCREEN_DN_STOP_THRESHOLD_def)

text \<open>
  C8. \<open>event_endswitch_triggered\<close> called while the direction is DOWN leaves the
  position unchanged; called while the direction is UP or NEUTRAL it sets the
  position to 0, whatever the position was.
\<close>

theorem event_endswitch_triggered_pos:
  "(motor_dir s = DIR_DOWN \<longrightarrow> pos (event_endswitch_triggered s) = pos s)
   \<and> (motor_dir s \<in> {DIR_UP, DIR_NEUTRAL} \<longrightarrow> pos (event_endswitch_triggered s) = 0)"
  by (auto simp: event_endswitch_triggered_def)

theorem event_endswitch_triggered_pos_witness:
  "motor_dir \<lparr>error = ERR_NONE, motor_dir = DIR_DOWN, pos = 37, last_update_time = 17,
       PORTA = 0x40, PORTB = 0x0A\<rparr> = DIR_DOWN
   \<and> pos (event_endswitch_triggered
       \<lparr>error = ERR_NONE, motor_dir = DIR_DOWN, pos = 37, last_update_time = 17,
        PORTA = 0x40, PORTB = 0x0A\<rparr>) = 37
   \<and> motor_dir \<lparr>error = ERR_NONE, motor_dir = DIR_UP, pos = 37, last_update_time = 17,
       PORTA = 0, PORTB = 0x0B\<rparr> \<in> {DIR_UP, DIR_NEUTRAL}
   \<and> pos (event_endswitch_triggered
       \<lparr>error = ERR_NONE, motor_dir = DIR_UP, pos = 37, last_update_time = 17,
        PORTA = 0, PORTB = 0x0B\<rparr>) = 0"
  using event_endswitch_triggered_pos
      [of "\<lparr>error = ERR_NONE, motor_dir = DIR_DOWN, pos = 37, last_update_time = 17,
           PORTA = 0x40, PORTB = 0x0A\<rparr>"]
    event_endswitch_triggered_pos
      [of "\<lparr>error = ERR_NONE, motor_dir = DIR_UP, pos = 37, last_update_time = 17,
           PORTA = 0, PORTB = 0x0B\<rparr>"]
  by simp

section \<open>The error invariant\<close>

lemma set_dir_error_neutral: "error_neutral s \<Longrightarrow> error_neutral (set_dir io d s)"
  by (auto simp: error_neutral_def set_dir_def up_stop_condition_def down_stop_condition_def
      split: Direction.splits)

lemma go_home_error_neutral: "error_neutral s \<Longrightarrow> error_neutral (go_home io io' s)"
  by (auto simp: error_neutral_def go_home_def Let_def set_dir_error)

lemma tick_error_neutral: "error_neutral s \<Longrightarrow> error_neutral (event_rotation_tick io s)"
  by (auto simp: error_neutral_def event_rotation_tick_def Let_def split: Direction.splits)

lemma endswitch_error_neutral:
  "error_neutral s \<Longrightarrow> error_neutral (event_endswitch_triggered s)"
  by (auto simp: error_neutral_def event_endswitch_triggered_def)

lemma check_stop_error_neutral:
  "error_neutral s \<Longrightarrow> error_neutral (check_stop_conditions io s)"
  by (auto simp: error_neutral_def check_stop_conditions_def Let_def enter_error_state_def
      set_dir_neutral_dir set_dir_error)

lemma Screen_new_error_neutral: "error_neutral (Screen_new t pa pb)"
  by (simp add: error_neutral_def Screen_new_def)

lemma exec_error_neutral: "error_neutral s \<Longrightarrow> error_neutral (exec a s)"
  by (cases a)
    (simp_all add: set_dir_error_neutral go_home_error_neutral tick_error_neutral
      endswitch_error_neutral check_stop_error_neutral)

lemma run_error_neutral: "error_neutral s \<Longrightarrow> error_neutral (run as s)"
  by (induction as arbitrary: s) (simp_all add: exec_error_neutral)

text \<open>
  C4. The invariant "an error state other than NONE implies Direction NEUTRAL" holds
  in the state the constructor builds and is preserved by \<open>set_dir\<close>, \<open>go_home\<close>,
  \<open>event_rotation_tick\<close>, \<open>event_endswitch_triggered\<close>, \<open>check_stop_conditions\<close> and
  \<open>enter_error_state\<close>, for every argument and every register reading.
\<close>

theorem error_neutral_invariant:
  "error_neutral (Screen_new t pa pb)
   \<and> (error_neutral s \<longrightarrow>
        error_neutral (set_dir io d s)
      \<and> error_neutral (go_home io io' s)
      \<and> error_neutral (event_rotation_tick io s)
      \<and> error_neutral (event_endswitch_triggered s)
      \<and> error_neutral (check_stop_conditions io s)
      \<and> error_neutral (enter_error_state io type s))"
  by (simp add: Screen_new_error_neutral set_dir_error_neutral go_home_error_neutral
      tick_error_neutral endswitch_error_neutral check_stop_error_neutral)
    (simp add: error_neutral_def enter_error_state_dir)

theorem error_neutral_invariant_witness:
  "error_neutral \<lparr>error = ERR_ROTATION, motor_dir = DIR_NEUTRAL, pos = 120,
       last_update_time = 17, PORTA = 0, PORTB = 0x0A\<rparr>
   \<and> error_neutral (set_dir \<lparr>TCNT1 = 500, PINB = 0x0A\<rparr> DIR_DOWN
       \<lparr>error = ERR_ROTATION, motor_dir = DIR_NEUTRAL, pos = 120,
        last_update_time = 17, PORTA = 0, PORTB = 0x0A\<rparr>)
   \<and> error_neutral (go_home \<lparr>TCNT1 = 500, PINB = 0x0A\<rparr> \<lparr>TCNT1 = 501, PINB = 0x08\<rparr>
       \<lparr>error = ERR_ROTATION, motor_dir = DIR_NEUTRAL, pos = 120,
        last_update_time = 17, PORTA = 0, PORTB = 0x0A\<rparr>)
   \<and> error_neutral (event_rotation_tick \<lparr>TCNT1 = 500, PINB = 0x0A\<rparr>
       \<lparr>error = ERR_ROTATION, motor_dir = DIR_NEUTRAL, pos = 120,
        last_update_time = 17, PORTA = 0, PORTB = 0x0A\<rparr>)
   \<and> error_neutral (event_endswitch_triggered
       \<lparr>error = ERR_ROTATION, motor_dir = DIR_NEUTRAL, pos = 120,
        last_update_time = 17, PORTA = 0, PORTB = 0x0A\<rparr>)
   \<and> error_neutral (check_stop_conditions \<lparr>TCNT1 = 500, PINB = 0x0A\<rparr>
       \<lparr>error = ERR_ROTATION, motor_dir = DIR_NEUTRAL, pos = 120,
        last_update_time = 17, PORTA = 0, PORTB = 0x0A\<rparr>)
   \<and> error_neutral (enter_error_state \<lparr>TCNT1 = 500, PINB = 0x0A\<rparr> ERR_SWITCH
       \<lparr>error = ERR_ROTATION, motor_dir = DIR_NEUTRAL, pos = 120,
        last_update_time = 17, PORTA = 0, PORTB = 0x0A\<rparr>)"
proof -
  have h: "error_neutral \<lparr>error = ERR_ROTATION, motor_dir = DIR_NEUTRAL, pos = 120,
       last_update_time = 17, PORTA = 0, PORTB = 0x0A\<rparr>"
    by (simp add: error_neutral_def)
  from error_neutral_invariant
      [of 0 0 0 "\<lparr>error = ERR_ROTATION, motor_dir = DIR_NEUTRAL, pos = 120,
         last_update_time = 17, PORTA = 0, PORTB = 0x0A\<rparr>"
        "\<lparr>TCNT1 = 500, PINB = 0x0A\<rparr>" DIR_DOWN "\<lparr>TCNT1 = 501, PINB = 0x08\<rparr>"
        ERR_SWITCH] h
  show ?thesis by blast
qed

section \<open>The switch fault is permanent\<close>

lemma exec_switch_sticky:
  assumes "error_neutral s" and "error s = ERR_SWITCH"
  shows "error (exec a s) = ERR_SWITCH"
proof (cases a)
  case (Set_dir io d)
  then show ?thesis using assms by (simp add: set_dir_error)
next
  case (Go_home io io')
  then show ?thesis using assms by (simp add: go_home_def)
next
  case (Rotation_tick io)
  then show ?thesis using assms
    by (simp add: event_rotation_tick_def Let_def split: Direction.splits)
next
  case Endswitch_triggered
  then show ?thesis using assms by (simp add: event_endswitch_triggered_def)
next
  case (Check_stop io)
  from assms have "motor_dir s = DIR_NEUTRAL" by (simp add: error_neutral_def)
  with Check_stop assms show ?thesis by (simp add: check_stop_neutral)
qed

lemma run_switch_sticky:
  "error_neutral s \<Longrightarrow> error s = ERR_SWITCH \<Longrightarrow> error (run as s) = ERR_SWITCH"
proof (induction as arbitrary: s)
  case Nil
  then show ?case by simp
next
  case (Cons a as)
  have "error_neutral (exec a s)" using Cons.prems(1) by (rule exec_error_neutral)
  moreover have "error (exec a s) = ERR_SWITCH" using Cons.prems by (rule exec_switch_sticky)
  ultimately show ?case using Cons.IH by simp
qed

text \<open>
  C5. Once a run of public operations from the constructor's state has reached error
  state SWITCH_FAULT, no further sequence of \<open>set_dir\<close>, \<open>go_home\<close>,
  \<open>event_rotation_tick\<close>, \<open>event_endswitch_triggered\<close> and \<open>check_stop_conditions\<close>
  calls changes the error state; the direction stays NEUTRAL as well.
\<close>

theorem switch_fault_sticky:
  "error (run as (Screen_new t pa pb)) = ERR_SWITCH \<Longrightarrow>
   error (run bs (run as (Screen_new t pa pb))) = ERR_SWITCH
   \<and> motor_dir (run bs (run as (Screen_new t pa pb))) = DIR_NEUTRAL"
proof -
  assume sw: "error (run as (Screen_new t pa pb)) = ERR_SWITCH"
  have inv: "error_neutral (run as (Screen_new t pa pb))"
    by (simp add: run_error_neutral Screen_new_error_neutral)
  from inv sw have e: "error (run bs (run as (Screen_new t pa pb))) = ERR_SWITCH"
    by (rule run_switch_sticky)
  from inv have "error_neutral (run bs (run as (Screen_new t pa pb)))"
    by (rule run_error_neutral)
  with e show ?thesis by (simp add: error_neutral_def)
qed

text \<open>
  The fault is reached by driving up from position 0 with the endswitch open and
  counting four ticks; afterwards \<open>go_home\<close>, a command to go down, a tick, an
  endswitch event and a late stop check leave it in place.
\<close>

theorem switch_fault_sticky_witness:
  "error (run [Set_dir \<lparr>TCNT1 = 10, PINB = 0x0A\<rparr> DIR_UP,
          Rotation_tick \<lparr>TCNT1 = 20, PINB = 0x0A\<rparr>,
          Rotation_tick \<lparr>TCNT1 = 30, PINB = 0x0A\<rparr>,
          Rotation_tick \<lparr>TCNT1 = 40, PINB = 0x0A\<rparr>,
          Rotation_tick \<lparr>TCNT1 = 50, PINB = 0x0A\<rparr>,
          Check_stop \<lparr>TCNT1 = 60, PINB = 0x0A\<rparr>] (Screen_new 0 0 0x0A)) = ERR_SWITCH
   \<and> error (run [Go_home \<lparr>TCNT1 = 70, PINB = 0x0A\<rparr> \<lparr>TCNT1 = 71, PINB = 0x0A\<rparr>,
          Set_dir \<lparr>TCNT1 = 80, PINB = 0x0A\<rparr> DIR_DOWN,
          Rotation_tick \<lparr>TCNT1 = 90, PINB = 0x0A\<rparr>,
          Endswitch_triggered,
          Check_stop \<lparr>TCNT1 = 9000, PINB = 0x08\<rparr>]
        (run [Set_dir \<lparr>TCNT1 = 10, PINB = 0x0A\<rparr> DIR_UP,
          Rotation_tick \<lparr>TCNT1 = 20, PINB = 0x0A\<rparr>,
          Rotation_tick \<lparr>TCNT1 = 30, PINB = 0x0A\<rparr>,
          Rotation_tick \<lparr>TCNT1 = 40, PINB = 0x0A\<rparr>,
          Rotation_tick \<lparr>TCNT1 = 50, PINB = 0x0A\<rparr>,
          Check_stop \<lparr>TCNT1 = 60, PINB = 0x0A\<rparr>] (Screen_new 0 0 0x0A))) = ERR_SWITCH"
proof -
  have reach: "error (run [Set_dir \<lparr>TCNT1 = 10, PINB = 0x0A\<rparr> DIR_UP,
          Rotation_tick \<lparr>TCNT1 = 20, PINB = 0x0A\<rparr>,
          Rotation_tick \<lparr>TCNT1 = 30, PINB = 0x0A\<rparr>,
          Rotation_tick \<lparr>TCNT1 = 40, PINB = 0x0A\<rparr>,
          Rotation_tick \<lparr>TCNT1 = 50, PINB = 0x0A\<rparr>,
          Check_stop \<lparr>TCNT1 = 60, PINB = 0x0A\<rparr>] (Screen_new 0 0 0x0A)) = ERR_SWITCH"
    by (simp add: Screen_new_def set_dir_def up_stop_condition_def endswitch_in_def
        IN_ENDSWITCH_B_def SCREEN_UP_STOP_THRESHOLD_def event_rotation_tick_def Let_def
        check_stop_conditions_def enter_error_state_def Clock_now_def ms_to_cycles_1000
        word_sle_eq)
  from switch_fault_sticky [OF reach] reach show ?thesis by blast
qed

section \<open>Monoflop expiry\<close>

lemma regular_check_fields:
  "duration (regular_check io m) = duration m
   \<and> trigger_time (regular_check io m) = trigger_time m"
  by (simp add: regular_check_def)

lemma regular_checks_active:
  "active (regular_checks ios m) =
     (active m \<and> (\<forall>io \<in> set ios. Clock_now io - trigger_time m < duration m))"
  unfolding regular_checks_def
proof (induction ios arbitrary: m)
  case Nil
  then show ?case by simp
next
  case (Cons io ios)
  show ?case
    by (simp add: Cons.IH regular_check_fields) (auto simp: regular_check_def not_le)
qed

text \<open>
  C3 (as amended). After \<open>trigger\<close> at time \<open>t\<close>, \<open>is_active\<close> returns true immediately,
  and after any run of \<open>regular_check\<close> calls it returns true exactly when every one
  of those calls ran at a time \<open>t'\<close> with \<open>t' - t < duration\<close> (the difference taken
  modulo \<open>2^16\<close>): it turns false at the first \<open>regular_check\<close> that runs with
  \<open>t' - t \<ge> duration\<close> and not before, however much time has passed.
\<close>

theorem Monoflop_active_until_checked_expired:
  "is_active (trigger io0 m)
   \<and> (is_active (regular_checks ios (trigger io0 m))
        \<longleftrightarrow> (\<forall>io \<in> set ios. Clock_now io - Clock_now io0 < duration m))"
  by (simp add: is_active_def regular_checks_active) (simp add: trigger_def)

text \<open>Triggered at 65000 with a duration of 31248 ticks: a check 31247 ticks later
  keeps the monoflop active, a check 31248 ticks later clears it.\<close>

theorem Monoflop_active_until_checked_expired_witness:
  "is_active (regular_checks [\<lparr>TCNT1 = 65000, PINB = 0x0A\<rparr>, \<lparr>TCNT1 = 30711, PINB = 0x0A\<rparr>]
     (trigger \<lparr>TCNT1 = 65000, PINB = 0x0A\<rparr> (Monoflop_new 31248)))
   \<and> \<not> is_active (regular_checks
       [\<lparr>TCNT1 = 65000, PINB = 0x0A\<rparr>, \<lparr>TCNT1 = 30712, PINB = 0x0A\<rparr>,
        \<lparr>TCNT1 = 30800, PINB = 0x0A\<rparr>]
     (trigger \<lparr>TCNT1 = 65000, PINB = 0x0A\<rparr> (Monoflop_new 31248)))"
  using Monoflop_active_until_checked_expired
      [of "\<lparr>TCNT1 = 65000, PINB = 0x0A\<rparr>" "Monoflop_new 31248"
        "[\<lparr>TCNT1 = 65000, PINB = 0x0A\<rparr>, \<lparr>TCNT1 = 30711, PINB = 0x0A\<rparr>]"]
    Monoflop_active_until_checked_expired
      [of "\<lparr>TCNT1 = 65000, PINB = 0x0A\<rparr>" "Monoflop_new 31248"
        "[\<lparr>TCNT1 = 65000, PINB = 0x0A\<rparr>, \<lparr>TCNT1 = 30712, PINB = 0x0A\<rparr>,
          \<lparr>TCNT1 = 30800, PINB = 0x0A\<rparr>]"]
  by (simp add: Clock_now_def Monoflop_new_def)

text \<open>
  The 4000 ms monoflop of the main loop, triggered at time 0 and never checked:
  at time 40000, with \<open>40000 - 0 \<ge> duration\<close>, \<open>is_active\<close> still returns true.
\<close>

theorem Monoflop_unchecked_stays_active:
  "duration (Monoflop_new (ms_to_cycles 4000))
     \<le> Clock_now \<lparr>TCNT1 = 40000, PINB = 0x0A\<rparr> - Clock_now \<lparr>TCNT1 = 0, PINB = 0x0A\<rparr>
   \<and> is_active (regular_checks []
       (trigger \<lparr>TCNT1 = 0, PINB = 0x0A\<rparr> (Monoflop_new (ms_to_cycles 4000))))"
  by (simp add: is_active_def regular_checks_def trigger_def Clock_now_def Monoflop_new_def
      ms_to_cycles_4000)

end
